theory Spec2Isabelle
  imports Main
begin

section \<open>Python values and errors\<close>

text \<open>
  The two entry points of the repository are \<^verbatim>\<open>src/app.py\<close> (the text/audio echo form)
  and \<^verbatim>\<open>src/web/Space.py\<close> (the static information page). Strings are byte strings;
  an argument that the form leaves out arrives as Python's \<^verbatim>\<open>None\<close>, so an optional string
  is a \<^typ>\<open>string option\<close>.
\<close>

datatype py_error = ValueError

text \<open>Truth value of an optional string in an \<^verbatim>\<open>if\<close>: \<^verbatim>\<open>None\<close> and \<^verbatim>\<open>""\<close> are false.\<close>

fun truthy :: "string option \<Rightarrow> bool" where
  "truthy None = False"
| "truthy (Some s) = (s \<noteq> [])"

text \<open>What a replacement field \<^verbatim>\<open>{x}\<close> of an f-string inserts for an optional string.\<close>

fun format_field :: "string option \<Rightarrow> string" where
  "format_field None = ''None''"
| "format_field (Some s) = s"

section \<open>The input router: \<^verbatim>\<open>process\<close> in \<^verbatim>\<open>src/app.py\<close>\<close>

text \<open>
  \<^verbatim>\<open>
  def process(text: str, audio_path: str):
      if audio_path:
          return f"Received audio file at: {audio_path}"
      if text:
          return f"Echo: {text}"
      return "Please provide text input or upload an audio file."
  \<close>
  The result type has an error alternative, so that "no statement of the body raises" is a
  property of the definition that can be stated.
\<close>

definition process :: "string option \<Rightarrow> string option \<Rightarrow> py_error + string" where
  "process text audio_path =
     (if truthy audio_path then Inr (''Received audio file at: '' @ format_field audio_path)
      else if truthy text then Inr (''Echo: '' @ format_field text)
      else Inr ''Please provide text input or upload an audio file.'')"


section \<open>Start-up of \<^verbatim>\<open>src/app.py\<close>: the port\<close>

text \<open>
  \<^verbatim>\<open>
  port = int(os.environ.get("PORT", os.environ.get("HF_SPACE_PORT", 7860)))
  demo.launch(server_name="0.0.0.0", server_port=port)
  \<close>
  \<^verbatim>\<open>os.environ.get\<close> gives the variable's string when the variable is set (the empty string
  included) and the default otherwise, so the argument of \<^verbatim>\<open>int\<close> is a string or the
  integer \<^verbatim>\<open>7860\<close>.
\<close>

datatype py_value = PyStr string | PyInt int

type_synonym environ = "string \<rightharpoonup> string"

definition environ_get :: "environ \<Rightarrow> string \<Rightarrow> py_value \<Rightarrow> py_value" where
  "environ_get env key dflt = (case env key of Some v \<Rightarrow> PyStr v | None \<Rightarrow> dflt)"

subsection \<open>The built-in \<^verbatim>\<open>int\<close> on a string\<close>

text \<open>
  CPython's conversion of a string in base 10 (\<^verbatim>\<open>PyLong_FromString\<close>), on ASCII text: white
  space is skipped on both sides, one sign may come first, and the digits may be grouped by
  single underscores, none leading, trailing or doubled. A text of more than 4300 digits is
  refused as well (the interpreter's default limit). Every refusal is a \<^verbatim>\<open>ValueError\<close>.
  Bytes outside ASCII are not digits here.
\<close>

definition py_isspace :: "char \<Rightarrow> bool" where
  "py_isspace c =
     (c = CHR '' '' \<or> c = CHR 0x09 \<or> c = CHR 0x0A \<or> c = CHR 0x0B \<or> c = CHR 0x0C \<or> c = CHR 0x0D)"

definition is_digit :: "char \<Rightarrow> bool" where
  "is_digit c = (48 \<le> (of_char c :: nat) \<and> (of_char c :: nat) \<le> 57)"

definition digit_value :: "char \<Rightarrow> int" where
  "digit_value c = int (of_char c) - 48"

definition max_str_digits :: nat where
  "max_str_digits = 4300"

text \<open>
  The scan over digits and underscores: \<open>prev\<close> is the character before, \<open>digits\<close> the number
  of digits seen, \<open>acc\<close> their value. It stops at the first other character and gives what
  is left; a doubled underscore ends it with \<open>None\<close>.
\<close>

fun scan_digits :: "char \<Rightarrow> nat \<Rightarrow> int \<Rightarrow> string \<Rightarrow> (char \<times> nat \<times> int \<times> string) option" where
  "scan_digits prev digits acc [] = Some (prev, digits, acc, [])"
| "scan_digits prev digits acc (c # cs) =
     (if c = CHR ''_'' then
        (if prev = CHR ''_'' then None else scan_digits c digits acc cs)
      else if is_digit c then scan_digits c (Suc digits) (10 * acc + digit_value c) cs
      else Some (prev, digits, acc, c # cs))"

fun take_sign :: "string \<Rightarrow> int \<times> string" where
  "take_sign [] = (1, [])"
| "take_sign (c # cs) =
     (if c = CHR ''+'' then (1, cs) else if c = CHR ''-'' then (- 1, cs) else (1, c # cs))"

definition int_of_str :: "string \<Rightarrow> py_error + int" where
  "int_of_str s =
     (case take_sign (dropWhile py_isspace s) of (sign, start) \<Rightarrow>
        if take 1 start = ''_'' then Inl ValueError
        else case scan_digits (CHR 0x00) 0 0 start of
          None \<Rightarrow> Inl ValueError
        | Some (prev, digits, acc, rest) \<Rightarrow>
            if prev = CHR ''_'' then Inl ValueError
            else if length rest = length start then Inl ValueError
            else if dropWhile py_isspace rest \<noteq> [] then Inl ValueError
            else if digits > max_str_digits then Inl ValueError
            else Inr (sign * acc))"

fun py_int :: "py_value \<Rightarrow> py_error + int" where
  "py_int (PyStr s) = int_of_str s"
| "py_int (PyInt n) = Inr n"

subsection \<open>The main block\<close>

record launch_args =
  server_name :: string
  server_port :: int

definition resolve_port :: "environ \<Rightarrow> py_error + int" where
  "resolve_port env =
     py_int (environ_get env ''PORT'' (environ_get env ''HF_SPACE_PORT'' (PyInt 7860)))"

text \<open>
  The main block after \<^verbatim>\<open>build_ui()\<close>: either the conversion raises and the program ends
  there, or \<^verbatim>\<open>launch\<close> is called with these arguments.
\<close>

definition app_main :: "environ \<Rightarrow> py_error + launch_args" where
  "app_main env =
     (case resolve_port env of
        Inl e \<Rightarrow> Inl e
      | Inr port \<Rightarrow> Inr \<lparr>server_name = ''0.0.0.0'', server_port = port\<rparr>)"

section \<open>The information page: \<^verbatim>\<open>create_interface\<close> in \<^verbatim>\<open>src/web/Space.py\<close>\<close>






section \<open>Properties of the router\<close>

text \<open>
  C1. Whenever the audio path is a non-empty string, whatever the text is (absent, empty or
  not), the output is \<^verbatim>\<open>"Received audio file at: "\<close> followed by the audio path.
\<close>

theorem process_audio:
  "audio_path = Some p \<Longrightarrow> p \<noteq> [] \<Longrightarrow>
   process text audio_path = Inr (''Received audio file at: '' @ p)"
  by (simp add: process_def)

theorem process_audio_witness:
  "Some ''/tmp/rec.wav'' = Some ''/tmp/rec.wav'' \<and> ''/tmp/rec.wav'' \<noteq> [] \<and>
   process None (Some ''/tmp/rec.wav'') = Inr ''Received audio file at: /tmp/rec.wav''"
  using process_audio [of "Some ''/tmp/rec.wav''" "''/tmp/rec.wav''" None] by simp

text \<open>
  C2. When the audio path is absent or empty and the text is a non-empty string, the output is
  \<^verbatim>\<open>"Echo: "\<close> followed by the text.
\<close>

theorem process_echo:
  "audio_path = None \<or> audio_path = Some [] \<Longrightarrow> text = Some t \<Longrightarrow> t \<noteq> [] \<Longrightarrow>
   process text audio_path = Inr (''Echo: '' @ t)"
  by (auto simp add: process_def)

theorem process_echo_witness:
  "process (Some ''hello'') None = Inr ''Echo: hello'' \<and>
   process (Some ''hello'') (Some []) = Inr ''Echo: hello''"
  using process_echo [of None "Some ''hello''" "''hello''"]
    process_echo [of "Some []" "Some ''hello''" "''hello''"]
  by simp

text \<open>
  C3. When both the audio path and the text are absent or empty, the output is exactly the
  fixed message \<^verbatim>\<open>"Please provide text input or upload an audio file."\<close>.
\<close>

theorem process_fallback:
  "audio_path = None \<or> audio_path = Some [] \<Longrightarrow> text = None \<or> text = Some [] \<Longrightarrow>
   process text audio_path = Inr ''Please provide text input or upload an audio file.''"
  by (auto simp add: process_def)

theorem process_fallback_witness:
  "process (Some []) (Some []) = Inr ''Please provide text input or upload an audio file.'' \<and>
   process None None = Inr ''Please provide text input or upload an audio file.'' \<and>
   process None (Some []) = Inr ''Please provide text input or upload an audio file.'' \<and>
   process (Some []) None = Inr ''Please provide text input or upload an audio file.''"
  using process_fallback [of "Some []" "Some []"] process_fallback [of None None]
    process_fallback [of "Some []" None] process_fallback [of None "Some []"]
  by simp

text \<open>
  C4. Precedence: when both the audio path and the text are non-empty strings, the output is
  the one of the audio branch, and it is not the echo of the text.
\<close>

theorem process_audio_precedence:
  "audio_path = Some p \<Longrightarrow> p \<noteq> [] \<Longrightarrow> text = Some t \<Longrightarrow> t \<noteq> [] \<Longrightarrow>
   process text audio_path = Inr (''Received audio file at: '' @ p) \<and>
   process text audio_path \<noteq> Inr (''Echo: '' @ t)"
  by (simp add: process_def)

theorem process_audio_precedence_witness:
  "process (Some ''hi'') (Some ''/tmp/a.wav'') = Inr ''Received audio file at: /tmp/a.wav'' \<and>
   process (Some ''hi'') (Some ''/tmp/a.wav'') \<noteq> Inr ''Echo: hi''"
  using process_audio_precedence [of "Some ''/tmp/a.wav''" "''/tmp/a.wav''" "Some ''hi''" "''hi''"]
  by simp



section \<open>Properties of the start-up\<close>

lemmas port_defs =
  app_main_def resolve_port_def environ_get_def int_of_str_def py_isspace_def
  is_digit_def digit_value_def max_str_digits_def





text \<open>
  C10. When \<^verbatim>\<open>PORT\<close> is set to the empty string, neither \<^verbatim>\<open>HF_SPACE_PORT\<close> nor 7860 is
  used: the empty string is what \<^verbatim>\<open>int\<close> gets, and the start-up ends with its
  \<^verbatim>\<open>ValueError\<close>. The defaults are for an absent variable only.
\<close>

theorem empty_port_fatal:
  "env ''PORT'' = Some [] \<Longrightarrow> resolve_port env = Inl ValueError \<and> app_main env = Inl ValueError"
  by (simp add: port_defs)

theorem empty_port_fatal_witness:
  "resolve_port [''PORT'' \<mapsto> [], ''HF_SPACE_PORT'' \<mapsto> ''8080''] = Inl ValueError \<and>
   app_main [''PORT'' \<mapsto> [], ''HF_SPACE_PORT'' \<mapsto> ''8080''] = Inl ValueError \<and>
   app_main [''PORT'' \<mapsto> []] = Inl ValueError"
  using empty_port_fatal [of "[''PORT'' \<mapsto> [], ''HF_SPACE_PORT'' \<mapsto> ''8080'']"]
    empty_port_fatal [of "[''PORT'' \<mapsto> []]"]
  by simp

section \<open>Properties of the information page\<close>


end
